theory Spec2Isabelle
  imports Complex_Main "HOL-Library.Char_ord" "HOL-Library.List_Lexorder"
begin

section \<open>Quantities: the decimal arithmetic the stock engine relies on\<close>

text \<open>
  \<^verbatim>\<open>app.py\<close> computes every stock quantity with \<^verbatim>\<open>decimal.Decimal\<close> under Python's
  default context (28 significant digits, \<^verbatim>\<open>ROUND_HALF_EVEN\<close>, \<^verbatim>\<open>InvalidOperation\<close>
  trapped). A finite \<^verbatim>\<open>Decimal\<close> is a signed coefficient and an exponent; its value
  is \<open>coef * 10 ^ expo\<close>. Negative zero is identified with zero (the program only compares
  with \<^verbatim>\<open>< 0\<close> and \<^verbatim>\<open><= 0\<close>, which do not tell them apart), NaN and the infinities are
  not values of the type, and the exponent limits \<^verbatim>\<open>Emin\<close>/\<^verbatim>\<open>Emax\<close> (six digits) are out
  of reach of the quantities handled here.
\<close>

datatype decimal = Decimal (coef: int) (expo: int)

text \<open>\<^verbatim>\<open>len(self._int)\<close>: the number of decimal digits of a non-negative coefficient.\<close>

function ndigits :: "int \<Rightarrow> nat" where
  "ndigits n = (if n < 10 then 1 else Suc (ndigits (n div 10)))"
  by pat_completeness auto
termination
  by (relation "measure nat") auto

declare ndigits.simps [simp del]

text \<open>\<^verbatim>\<open>getcontext().prec\<close> of the default context.\<close>

definition prec :: nat where
  "prec = 28"

text \<open>
  \<^verbatim>\<open>Decimal._fix\<close>: a result with more than \<^verbatim>\<open>prec\<close> digits is rounded to \<^verbatim>\<open>prec\<close> digits,
  ties to the even neighbour; when the rounding carries into a further digit the last
  digit is dropped and the exponent raised once more.
\<close>

definition dec_fix :: "decimal \<Rightarrow> decimal" where
  "dec_fix d =
     (let a = \<bar>coef d\<bar>; n = ndigits a in
      if n \<le> prec then d
      else
        let k = n - prec; q = a div 10 ^ k; r = a mod 10 ^ k;
            q' = (if 10 ^ k < 2 * r \<or> (2 * r = 10 ^ k \<and> odd q) then q + 1 else q)
        in if prec < ndigits q'
           then Decimal (sgn (coef d) * (q' div 10)) (expo d + int k + 1)
           else Decimal (sgn (coef d) * q') (expo d + int k))"

text \<open>The coefficient of the exact sum, written at the smaller of the two exponents.\<close>

definition suma_coef :: "decimal \<Rightarrow> decimal \<Rightarrow> int" where
  "suma_coef x y =
     (let e = min (expo x) (expo y) in
      coef x * 10 ^ nat (expo x - e) + coef y * 10 ^ nat (expo y - e))"

text \<open>\<^verbatim>\<open>x + y\<close>: the exact sum, then the context's rounding.\<close>

definition dec_add :: "decimal \<Rightarrow> decimal \<Rightarrow> decimal" where
  "dec_add x y = dec_fix (Decimal (suma_coef x y) (min (expo x) (expo y)))"

text \<open>\<^verbatim>\<open>x * y\<close>, \<^verbatim>\<open>-x\<close> and \<^verbatim>\<open>abs(x)\<close>; each applies the context's rounding to its result.\<close>

definition dec_mul :: "decimal \<Rightarrow> decimal \<Rightarrow> decimal" where
  "dec_mul x y = dec_fix (Decimal (coef x * coef y) (expo x + expo y))"

definition dec_neg :: "decimal \<Rightarrow> decimal" where
  "dec_neg x = dec_fix (Decimal (- coef x) (expo x))"

definition dec_abs :: "decimal \<Rightarrow> decimal" where
  "dec_abs x = dec_fix (Decimal \<bar>coef x\<bar> (expo x))"

text \<open>Comparisons are exact: \<^verbatim>\<open>x < y\<close> and \<^verbatim>\<open>x <= y\<close>.\<close>

definition dec_less :: "decimal \<Rightarrow> decimal \<Rightarrow> bool" where
  "dec_less x y =
     (let e = min (expo x) (expo y) in
      coef x * 10 ^ nat (expo x - e) < coef y * 10 ^ nat (expo y - e))"

definition dec_le :: "decimal \<Rightarrow> decimal \<Rightarrow> bool" where
  "dec_le x y =
     (let e = min (expo x) (expo y) in
      coef x * 10 ^ nat (expo x - e) \<le> coef y * 10 ^ nat (expo y - e))"

text \<open>\<^verbatim>\<open>Decimal(str(n))\<close> for a Python \<^verbatim>\<open>int\<close>, and the literal \<^verbatim>\<open>0\<close> of the comparisons.\<close>

definition dec_of_int :: "int \<Rightarrow> decimal" where
  "dec_of_int n = Decimal n 0"

definition cero :: decimal where
  "cero = Decimal 0 0"

text \<open>
  The exceptions the modelled code can raise. The two \<^verbatim>\<open>ValueError\<close>s of the stock engine
  and the one of the sale carry the values their f-string messages interpolate:
  \<^verbatim>\<open>f"Ingrediente ID {id_ingrediente} no encontrado."\<close>,
  \<^verbatim>\<open>f"Stock insuficiente para '{nombre_ingrediente}' (ID {id_ingrediente}). Requiere
  {abs(cantidad_ajuste_decimal)}, disponible {stock_actual_decimal}."\<close> and
  \<^verbatim>\<open>f"Producto ID {id_producto} no encontrado."\<close>.
  \<^verbatim>\<open>decimal.InvalidOperation\<close> is an \<^verbatim>\<open>ArithmeticError\<close>, not a \<^verbatim>\<open>ValueError\<close>.
\<close>

datatype error =
    Ingrediente_no_encontrado int
  | Stock_insuficiente string int decimal decimal
  | Producto_no_encontrado int
  | InvalidOperation
  | AttributeError
  | TypeError

fun is_ValueError :: "error \<Rightarrow> bool" where
  "is_ValueError (Ingrediente_no_encontrado _) = True"
| "is_ValueError (Stock_insuficiente _ _ _ _) = True"
| "is_ValueError (Producto_no_encontrado _) = True"
| "is_ValueError _ = False"

text \<open>
  \<^verbatim>\<open>Decimal._rescale(-3, ROUND_HALF_UP)\<close>: the coefficient of the value written with
  exponent \<open>-3\<close>. Zeros are appended when the exponent is larger; otherwise the
  discarded digits are rounded, a first discarded digit of 5 or more rounding away from
  zero.
\<close>

definition rescale_half_up :: "decimal \<Rightarrow> int" where
  "rescale_half_up d =
     (let c = coef d; e = expo d; a = \<bar>c\<bar> in
      if - 3 \<le> e then c * 10 ^ nat (e + 3)
      else let k = nat (- 3 - e); q = a div 10 ^ k; r = a mod 10 ^ k
           in sgn c * (if 10 ^ k \<le> 2 * r then q + 1 else q))"

text \<open>
  \<^verbatim>\<open>x.quantize(Decimal('0.001'), rounding=ROUND_HALF_UP)\<close>: the rescaled value. It raises
  \<^verbatim>\<open>InvalidOperation\<close> when the result would need more than \<^verbatim>\<open>prec\<close> digits.
\<close>

definition quantize :: "decimal \<Rightarrow> error + decimal" where
  "quantize d =
     (if coef d = 0 then Inr (Decimal 0 (- 3))
      else if int prec < int (ndigits \<bar>coef d\<bar>) + expo d + 3 then Inl InvalidOperation
      else if prec < ndigits \<bar>rescale_half_up d\<bar> then Inl InvalidOperation
      else Inr (Decimal (rescale_half_up d) (- 3)))"

text \<open>
  The mathematical reading used to state the properties: the rational value of a decimal,
  and "rounded half-up to 3 decimals" (ties away from zero) on the rationals.
\<close>

definition dec_val :: "decimal \<Rightarrow> rat" where
  "dec_val d =
     (if 0 \<le> expo d then of_int (coef d * 10 ^ nat (expo d))
      else of_int (coef d) / 10 ^ nat (- expo d))"

definition round_half_up_3 :: "rat \<Rightarrow> rat" where
  "round_half_up_3 x = sgn x * of_int \<lfloor>\<bar>x\<bar> * 1000 + 1 / 2\<rfloor> / 1000"

section \<open>Strings\<close>

text \<open>
  Strings are lists of 8-bit characters, so the model covers ASCII text. \<^verbatim>\<open>str.strip()\<close>
  removes the leading and trailing characters for which \<^verbatim>\<open>isspace()\<close> holds (in ASCII: tab,
  line feed, vertical tab, form feed, carriage return, the four separators 28 to 31, and
  the space); \<^verbatim>\<open>str.upper()\<close> maps \<^verbatim>\<open>a\<close>..\<^verbatim>\<open>z\<close> to \<^verbatim>\<open>A\<close>..\<^verbatim>\<open>Z\<close> and leaves every other
  ASCII character as it is.
\<close>

definition isspace :: "char \<Rightarrow> bool" where
  "isspace c = (let n = (of_char c :: nat) in (9 \<le> n \<and> n \<le> 13) \<or> (28 \<le> n \<and> n \<le> 32))"

definition islower :: "char \<Rightarrow> bool" where
  "islower c = (let n = (of_char c :: nat) in 97 \<le> n \<and> n \<le> 122)"

definition strip :: "string \<Rightarrow> string" where
  "strip s = rev (dropWhile isspace (rev (dropWhile isspace s)))"

definition upper_char :: "char \<Rightarrow> char" where
  "upper_char c = (if islower c then char_of ((of_char c :: nat) - 32) else c)"

definition upper :: "string \<Rightarrow> string" where
  "upper s = map upper_char s"

section \<open>The store\<close>

text \<open>
  The Oracle tables the modelled routes touch, each a list of rows in storage order. A
  \<^verbatim>\<open>SELECT ... WHERE key = :id\<close> followed by \<^verbatim>\<open>fetchone()\<close> is \<^const>\<open>find\<close>; an
  \<^verbatim>\<open>UPDATE ... WHERE key = :id\<close> rewrites every row with that key; an \<^verbatim>\<open>INSERT\<close> appends a
  row. The generated key \<^verbatim>\<open>id_movimiento\<close> is never read by the program and is left out.

  The schema is not part of \<^verbatim>\<open>app.py\<close>. Numeric columns hold the decimal value the program
  passes: the conversion to binary floating point on the way in (\<^verbatim>\<open>float(...)\<close>) and back
  (\<^verbatim>\<open>Decimal(str(...))\<close>) is not modelled; it returns the decimal written for values of at
  most 15 significant digits. Timestamps are natural numbers.
\<close>

record ingrediente =
  id_ingrediente :: int
  nombre :: string
  descripcion :: "string option"
  unidad_medida :: string
  stock_actual :: decimal
  stock_minimo :: decimal
  fecha_actualizacion :: nat

text \<open>
  The \<^verbatim>\<open>observacion\<close> texts the program builds are kept as the values they interpolate:
  \<^verbatim>\<open>f"Entrada de {cantidad} unidades."\<close>,
  \<^verbatim>\<open>f"Salida por Venta ID: {new_venta_id} ({cantidad_productos_vendidos} x '{nombre_producto}')"\<close>
  and \<^verbatim>\<open>f"Venta de {cantidad_productos_vendidos} x {nombre_producto}"\<close>; \<open>Texto\<close> is a note
  sent by the caller.
\<close>

datatype nota =
    Texto string
  | Entrada_de decimal
  | Salida_por_venta int int string
  | Venta_de int string

record movimiento =
  mov_id_ingrediente_fk :: int
  mov_id_venta_fk :: "int option"
  tipo_movimiento :: string
  cantidad :: decimal
  fecha_movimiento :: nat
  mov_observacion :: nota

record venta =
  id_venta :: int
  venta_id_producto_fk :: int
  cantidad_vendida :: int
  precio_unitario_venta :: decimal
  monto_total_venta :: decimal
  fecha_venta :: nat
  venta_observacion :: nota

record producto =
  id_producto :: int
  prod_nombre :: string
  precio_venta :: decimal

record producto_ingrediente =
  pi_id_producto_fk :: int
  pi_id_ingrediente_fk :: int
  cantidad_necesaria :: decimal
  unidad_medida_receta :: string

record db =
  SGIC_INGREDIENTES :: "ingrediente list"
  SGIC_MOVIMIENTOS_INVENTARIO :: "movimiento list"
  SGIC_VENTAS :: "venta list"
  SGIC_PRODUCTOS :: "producto list"
  SGIC_PRODUCTO_INGREDIENTES :: "producto_ingrediente list"

text \<open>\<^verbatim>\<open>SELECT ... FROM SGIC_INGREDIENTES WHERE id_ingrediente = :id\<close>, first row.\<close>

definition select_ingrediente :: "db \<Rightarrow> int \<Rightarrow> ingrediente option" where
  "select_ingrediente cursor ident =
     find (\<lambda>r. id_ingrediente r = ident) (SGIC_INGREDIENTES cursor)"

text \<open>\<^verbatim>\<open>SELECT nombre, precio_venta FROM SGIC_PRODUCTOS WHERE id_producto = :id\<close>, first row.\<close>

definition select_producto :: "db \<Rightarrow> int \<Rightarrow> producto option" where
  "select_producto cursor ident =
     find (\<lambda>r. id_producto r = ident) (SGIC_PRODUCTOS cursor)"

text \<open>
  What a request reads from its environment: \<open>ahora n\<close> is the \<open>n\<close>-th reading of
  \<^verbatim>\<open>datetime.now()\<close> (or of the database's \<^verbatim>\<open>CURRENT_TIMESTAMP\<close>) while the request is
  served, and \<open>new_id_venta\<close> the key the database generates for an inserted sale
  (\<^verbatim>\<open>RETURNING id_venta INTO :new_id_venta\<close>).
\<close>

record entorno =
  ahora :: "nat \<Rightarrow> nat"
  new_id_venta :: int

section \<open>The stock adjustment engine\<close>

text \<open>
  \<^verbatim>\<open>_actualizar_stock_ingrediente_db(id_ingrediente, cantidad_ajuste_decimal, tipo_movimiento,
  observacion, cursor, id_venta=None)\<close>. The cursor is the state of the open transaction; the
  function returns it together with \<open>Inr ()\<close>, or with the exception raised. \<open>fecha\<close> is
  the reading of \<^verbatim>\<open>datetime.now()\<close> made for the movement row. The final log line is not
  modelled.
\<close>

definition update_stock :: "int \<Rightarrow> decimal \<Rightarrow> ingrediente list \<Rightarrow> ingrediente list" where
  "update_stock ident nuevo_stock rows =
     map (\<lambda>r. if id_ingrediente r = ident then r\<lparr>stock_actual := nuevo_stock\<rparr> else r) rows"

text \<open>\<^verbatim>\<open>abs(float(x))\<close>, the magnitude passed to the \<^verbatim>\<open>INSERT\<close>; no context rounding applies.\<close>

definition abs_float :: "decimal \<Rightarrow> decimal" where
  "abs_float x = Decimal \<bar>coef x\<bar> (expo x)"

definition actualizar_stock_ingrediente_db ::
  "int \<Rightarrow> decimal \<Rightarrow> string \<Rightarrow> nota \<Rightarrow> nat \<Rightarrow> int option \<Rightarrow> db \<Rightarrow> (error + unit) \<times> db" where
  "actualizar_stock_ingrediente_db ident cantidad_ajuste_decimal tipo observ fecha id_venta_opt cursor =
     (case select_ingrediente cursor ident of
        None \<Rightarrow> (Inl (Ingrediente_no_encontrado ident), cursor)
      | Some ingrediente_row \<Rightarrow>
          (let stock_actual_decimal = stock_actual ingrediente_row;
               nombre_ingrediente = nombre ingrediente_row
           in (case quantize (dec_add stock_actual_decimal cantidad_ajuste_decimal) of
                 Inl e \<Rightarrow> (Inl e, cursor)
               | Inr nuevo_stock_decimal \<Rightarrow>
                   if dec_less nuevo_stock_decimal cero
                   then (Inl (Stock_insuficiente nombre_ingrediente ident
                                (dec_abs cantidad_ajuste_decimal) stock_actual_decimal), cursor)
                   else (Inr (),
                         cursor\<lparr>SGIC_INGREDIENTES :=
                                   update_stock ident nuevo_stock_decimal (SGIC_INGREDIENTES cursor),
                                 SGIC_MOVIMIENTOS_INVENTARIO :=
                                   SGIC_MOVIMIENTOS_INVENTARIO cursor @
                                   [\<lparr>mov_id_ingrediente_fk = ident, mov_id_venta_fk = id_venta_opt,
                                     tipo_movimiento = tipo,
                                     cantidad = abs_float cantidad_ajuste_decimal,
                                     fecha_movimiento = fecha, mov_observacion = observ\<rparr>]\<rparr>))))"

section \<open>Requests and responses\<close>

text \<open>
  A field of a JSON body as the routes read it: missing, present with a value the
  conversion rejects with \<^verbatim>\<open>TypeError\<close> (for a text field: a value that is not a string),
  present with a value it rejects with \<^verbatim>\<open>ValueError\<close> (\<^verbatim>\<open>InvalidOperation\<close> for a
  \<^verbatim>\<open>Decimal\<close>), or present with the converted value.
\<close>

datatype 'a campo = Falta | Tipo_invalido | Valor_invalido | Valor 'a

text \<open>
  A stock field of an ingredient payload: \<^verbatim>\<open>null\<close>, a blank string, something
  \<^verbatim>\<open>Decimal(str(...))\<close> rejects, or a finite decimal.
\<close>

datatype json_num = Nulo | Vacio | No_numero | Numero decimal

datatype campo_stock = Stock_actual | Stock_minimo

text \<open>The messages of \<^verbatim>\<open>validate_ingrediente_data\<close>.\<close>

datatype error_validacion =
    Nombre_requerido
  | Nombre_excede_100
  | Unidad_requerida
  | Unidad_excede_50
  | Descripcion_excede_255
  | No_puede_estar_vacio campo_stock
  | Es_requerido campo_stock
  | No_puede_ser_negativo campo_stock
  | Excede_precision campo_stock
  | Excede_maximo campo_stock
  | Debe_ser_numero campo_stock

text \<open>A line of a product's recipe as \<^verbatim>\<open>get_producto_by_id\<close> returns it.\<close>

record linea_receta =
  rec_id_ingrediente :: int
  nombre_ingrediente :: string
  rec_cantidad_necesaria :: decimal
  rec_unidad_medida_receta :: string

text \<open>
  The JSON bodies of the responses, by the message they carry. \<open>Error_ValueError e\<close> is
  \<^verbatim>\<open>{"error": str(ve)}\<close>, \<open>Error_interno e\<close> is the body of the \<^verbatim>\<open>except Exception\<close> handlers,
  and \<open>Error_no_manejado e\<close> stands for an exception no handler of the route catches
  (Flask answers 500).
\<close>

datatype cuerpo =
    Datos_incompletos
  | Numeros_invalidos
  | Cantidad_debe_ser_positiva
  | Error_ValueError error
  | Error_interno error
  | Error_no_manejado error
  | Entrada_registrada "ingrediente option"
  | Venta_registrada int string int
  | No_se_enviaron_datos
  | Datos_invalidos "error_validacion list"
  | No_encontrado
  | No_hay_campos int
  | Nombre_ya_existe
  | Ingrediente_actualizado "ingrediente option"
  | Producto_con_receta producto "linea_receta list"

record respuesta =
  status :: nat
  body :: cuerpo

definition responder :: "nat \<Rightarrow> cuerpo \<Rightarrow> respuesta" where
  "responder codigo contenido = \<lparr>status = codigo, body = contenido\<rparr>"

text \<open>
  The two handlers that close the inventory routes: \<^verbatim>\<open>except ValueError as ve\<close> answers 400
  with the message of the exception, \<^verbatim>\<open>except Exception as e\<close> answers 500.
\<close>

definition respuesta_de_error :: "error \<Rightarrow> respuesta" where
  "respuesta_de_error e =
     (if is_ValueError e then responder 400 (Error_ValueError e)
      else responder 500 (Error_interno e))"

section \<open>The route \<^verbatim>\<open>POST /api/inventario/entrada\<close>\<close>

record entrada_data =
  ent_id_ingrediente :: "int campo"
  ent_cantidad :: "decimal campo"
  ent_tipo_movimiento :: "string campo"
  ent_observacion :: "string option"

text \<open>
  \<^verbatim>\<open>data.get('tipo_movimiento', "ENTRADA_COMPRA").strip().upper()\<close>; a value that is not a
  string has no \<^verbatim>\<open>strip\<close>.
\<close>

definition tipo_movimiento_de :: "string campo \<Rightarrow> error + string" where
  "tipo_movimiento_de c =
     (case c of
        Falta \<Rightarrow> Inr (upper (strip ''ENTRADA_COMPRA''))
      | Valor s \<Rightarrow> Inr (upper (strip s))
      | _ \<Rightarrow> Inl AttributeError)"

text \<open>
  \<^verbatim>\<open>registrar_entrada_inventario\<close>. The first component of the result is the committed
  store after the request. The transaction works on a copy of it (\<open>cursor\<close>);
  \<^verbatim>\<open>connection.commit()\<close> makes the copy the store, and leaving the \<^verbatim>\<open>with\<close> block by an
  exception releases the connection without a commit, which discards the copy.
\<close>

definition registrar_entrada_inventario :: "entorno \<Rightarrow> entrada_data \<Rightarrow> db \<Rightarrow> db \<times> respuesta" where
  "registrar_entrada_inventario env data pool =
     (if ent_id_ingrediente data = Falta \<or> ent_cantidad data = Falta
      then (pool, responder 400 Datos_incompletos)
      else
        (case ent_id_ingrediente data of
           Valor ident \<Rightarrow>
             (case ent_cantidad data of
                Valor cantidad_dec \<Rightarrow>
                  if dec_le cantidad_dec cero
                  then (pool, responder 400 Cantidad_debe_ser_positiva)
                  else
                    (case tipo_movimiento_de (ent_tipo_movimiento data) of
                       Inl e \<Rightarrow> (pool, responder 500 (Error_no_manejado e))
                     | Inr tipo \<Rightarrow>
                         (let observ = (case ent_observacion data of
                                          None \<Rightarrow> Entrada_de cantidad_dec
                                        | Some t \<Rightarrow> Texto t)
                          in (case actualizar_stock_ingrediente_db ident cantidad_dec tipo observ
                                     (ahora env 0) None pool of
                                (Inr u, cursor) \<Rightarrow>
                                  (cursor,
                                   responder 200 (Entrada_registrada (select_ingrediente cursor ident)))
                              | (Inl e, cursor) \<Rightarrow> (pool, respuesta_de_error e))))
              | _ \<Rightarrow> (pool, responder 500 (Error_no_manejado InvalidOperation)))
         | _ \<Rightarrow> (pool, responder 400 Numeros_invalidos)))"

section \<open>The route \<^verbatim>\<open>POST /api/inventario/salida_venta_producto\<close>\<close>

record venta_data =
  vta_id_producto :: "int campo"
  vta_cantidad_vendida :: "int campo"
  vta_observacion_venta :: "string option"

text \<open>
  The \<^verbatim>\<open>for id_ing, cant_necesaria_unidad_db in ingredientes_receta\<close> loop of
  \<^verbatim>\<open>registrar_salida_por_venta\<close>, on the transaction's cursor. \<open>n\<close> counts the readings of
  the clock. An exception leaves the loop at once, with the cursor as the lines before
  it left it.
\<close>

fun descontar_receta ::
  "entorno \<Rightarrow> int \<Rightarrow> int \<Rightarrow> string \<Rightarrow> nat \<Rightarrow> (int \<times> decimal) list \<Rightarrow> db \<Rightarrow> (error + unit) \<times> db" where
  "descontar_receta env new_venta_id cantidad_productos_vendidos nombre_producto n [] cursor =
     (Inr (), cursor)"
| "descontar_receta env new_venta_id cantidad_productos_vendidos nombre_producto n
     ((id_ing, cant_necesaria_unidad) # resto) cursor =
     (let cantidad_total_a_descontar =
            dec_mul cant_necesaria_unidad (dec_of_int cantidad_productos_vendidos);
          observ_mov = Salida_por_venta new_venta_id cantidad_productos_vendidos nombre_producto
      in (case actualizar_stock_ingrediente_db id_ing (dec_neg cantidad_total_a_descontar)
                 ''SALIDA_VENTA'' observ_mov (ahora env n) (Some new_venta_id) cursor of
            (Inl e, cursor') \<Rightarrow> (Inl e, cursor')
          | (Inr u, cursor') \<Rightarrow>
              descontar_receta env new_venta_id cantidad_productos_vendidos nombre_producto
                (Suc n) resto cursor'))"

text \<open>
  \<^verbatim>\<open>SELECT id_ingrediente_fk, cantidad_necesaria FROM SGIC_PRODUCTO_INGREDIENTES WHERE
  id_producto_fk = :id_prod\<close>: the query has no \<^verbatim>\<open>ORDER BY\<close>, so the rows come in the order
  the table holds them.
\<close>

definition select_receta :: "db \<Rightarrow> int \<Rightarrow> (int \<times> decimal) list" where
  "select_receta cursor id_prod =
     map (\<lambda>r. (pi_id_ingrediente_fk r, cantidad_necesaria r))
       (filter (\<lambda>r. pi_id_producto_fk r = id_prod) (SGIC_PRODUCTO_INGREDIENTES cursor))"

text \<open>
  \<^verbatim>\<open>INSERT INTO SGIC_VENTAS (...) VALUES (...) RETURNING id_venta INTO :new_id_venta\<close>: the
  sale row, with the price read from the product and the total computed from it.
\<close>

definition insert_venta :: "entorno \<Rightarrow> int \<Rightarrow> int \<Rightarrow> string option \<Rightarrow> producto \<Rightarrow> db \<Rightarrow> db" where
  "insert_venta env id_prod cantidad_productos_vendidos observ producto_info cursor =
     (let nombre_producto = prod_nombre producto_info;
          precio_unitario_actual_db = precio_venta producto_info;
          monto_total = dec_mul precio_unitario_actual_db (dec_of_int cantidad_productos_vendidos)
      in cursor\<lparr>SGIC_VENTAS := SGIC_VENTAS cursor @
           [\<lparr>id_venta = new_id_venta env, venta_id_producto_fk = id_prod,
             cantidad_vendida = cantidad_productos_vendidos,
             precio_unitario_venta = precio_unitario_actual_db,
             monto_total_venta = monto_total, fecha_venta = ahora env 0,
             venta_observacion =
               (case observ of
                  None \<Rightarrow> Venta_de cantidad_productos_vendidos nombre_producto
                | Some t \<Rightarrow> Texto t)\<rparr>]\<rparr>)"

text \<open>
  The body of the \<^verbatim>\<open>with connection.cursor()\<close> block of \<^verbatim>\<open>registrar_salida_por_venta\<close>, up
  to but excluding the commit: the product lookup, the sale row, the recipe and the loop.
  It returns the product's name for the response. With an empty recipe the program only
  writes a log line.
\<close>

definition venta_transaccion ::
  "entorno \<Rightarrow> int \<Rightarrow> int \<Rightarrow> string option \<Rightarrow> db \<Rightarrow> (error + string) \<times> db" where
  "venta_transaccion env id_prod cantidad_productos_vendidos observ cursor =
     (case select_producto cursor id_prod of
        None \<Rightarrow> (Inl (Producto_no_encontrado id_prod), cursor)
      | Some producto_info \<Rightarrow>
          (let nombre_producto = prod_nombre producto_info;
               new_venta_id = new_id_venta env;
               cursor1 = insert_venta env id_prod cantidad_productos_vendidos observ
                           producto_info cursor;
               ingredientes_receta = select_receta cursor1 id_prod
           in if ingredientes_receta = [] \<and> 0 < cantidad_productos_vendidos
              then (Inr nombre_producto, cursor1)
              else (case descontar_receta env new_venta_id cantidad_productos_vendidos
                           nombre_producto 1 ingredientes_receta cursor1 of
                      (Inl e, cursor2) \<Rightarrow> (Inl e, cursor2)
                    | (Inr u, cursor2) \<Rightarrow> (Inr nombre_producto, cursor2))))"

text \<open>
  \<^verbatim>\<open>registrar_salida_por_venta\<close>. Only \<^verbatim>\<open>ValueError\<close> is caught around the two \<^verbatim>\<open>int(...)\<close>
  conversions. The commit is the last statement of the transaction; when an exception
  leaves it, the committed store stays as it was.
\<close>

definition registrar_salida_por_venta :: "entorno \<Rightarrow> venta_data \<Rightarrow> db \<Rightarrow> db \<times> respuesta" where
  "registrar_salida_por_venta env data pool =
     (if vta_id_producto data = Falta \<or> vta_cantidad_vendida data = Falta
      then (pool, responder 400 Datos_incompletos)
      else
        (case vta_id_producto data of
           Valor id_prod \<Rightarrow>
             (case vta_cantidad_vendida data of
                Valor cantidad_productos_vendidos \<Rightarrow>
                  if cantidad_productos_vendidos \<le> 0
                  then (pool, responder 400 Cantidad_debe_ser_positiva)
                  else
                    (case venta_transaccion env id_prod cantidad_productos_vendidos
                            (vta_observacion_venta data) pool of
                       (Inr nombre_producto, cursor) \<Rightarrow>
                         (cursor,
                          responder 200
                            (Venta_registrada cantidad_productos_vendidos nombre_producto
                               (new_id_venta env)))
                     | (Inl e, cursor) \<Rightarrow> (pool, respuesta_de_error e))
              | Valor_invalido \<Rightarrow> (pool, responder 400 Numeros_invalidos)
              | _ \<Rightarrow> (pool, responder 500 (Error_no_manejado TypeError)))
         | Valor_invalido \<Rightarrow> (pool, responder 400 Numeros_invalidos)
         | _ \<Rightarrow> (pool, responder 500 (Error_no_manejado TypeError))))"

section \<open>The route \<^verbatim>\<open>PUT /api/ingredientes/<id>\<close>\<close>

text \<open>
  The payload of an ingredient update: for each key, whether it is present and with what.
  \<open>dat_descripcion = Some None\<close> is \<^verbatim>\<open>"descripcion": null\<close>. Text fields hold strings.
\<close>

record ingrediente_data =
  dat_nombre :: "string option"
  dat_descripcion :: "string option option"
  dat_unidad_medida :: "string option"
  dat_stock_actual :: "json_num option"
  dat_stock_minimo :: "json_num option"

text \<open>The body of the \<^verbatim>\<open>for field in ['stock_actual', 'stock_minimo']\<close> loop.\<close>

definition validate_stock_field ::
  "bool \<Rightarrow> campo_stock \<Rightarrow> json_num option \<Rightarrow> error_validacion list" where
  "validate_stock_field is_update field v =
     (case v of
        None \<Rightarrow> []
      | Some Vacio \<Rightarrow> [No_puede_estar_vacio field]
      | Some Nulo \<Rightarrow> (if \<not> is_update then [Es_requerido field] else [])
      | Some No_numero \<Rightarrow> [Debe_ser_numero field]
      | Some (Numero x) \<Rightarrow>
          (if dec_less x cero then [No_puede_ser_negativo field] else []) @
          (if expo x < - 3 then [Excede_precision field] else []) @
          (if dec_less (Decimal 9999999999 (- 3)) x then [Excede_maximo field] else []))"

definition validate_ingrediente_data :: "ingrediente_data \<Rightarrow> bool \<Rightarrow> error_validacion list" where
  "validate_ingrediente_data data is_update =
     (if \<not> is_update \<or> dat_nombre data \<noteq> None
      then (let nombre_s = strip (case dat_nombre data of None \<Rightarrow> [] | Some t \<Rightarrow> t)
            in if nombre_s = [] then [Nombre_requerido]
               else if 100 < length nombre_s then [Nombre_excede_100] else [])
      else []) @
     (if \<not> is_update \<or> dat_unidad_medida data \<noteq> None
      then (let unidad = strip (case dat_unidad_medida data of None \<Rightarrow> [] | Some t \<Rightarrow> t)
            in if unidad = [] then [Unidad_requerida]
               else if 50 < length unidad then [Unidad_excede_50] else [])
      else []) @
     (case dat_descripcion data of
        Some (Some t) \<Rightarrow> (if 255 < length t then [Descripcion_excede_255] else [])
      | _ \<Rightarrow> []) @
     validate_stock_field is_update Stock_actual (dat_stock_actual data) @
     validate_stock_field is_update Stock_minimo (dat_stock_minimo data)"

text \<open>
  The \<^verbatim>\<open>SET\<close> list \<^verbatim>\<open>update_ingrediente\<close> builds, applied to one row. A stock field is
  assigned when the key is present and not \<^verbatim>\<open>null\<close>; the payload has passed validation, so
  it is then a number.
\<close>

definition set_stock :: "json_num option \<Rightarrow> decimal \<Rightarrow> decimal" where
  "set_stock v anterior = (case v of Some (Numero x) \<Rightarrow> x | _ \<Rightarrow> anterior)"

definition aplicar_update :: "ingrediente_data \<Rightarrow> nat \<Rightarrow> ingrediente \<Rightarrow> ingrediente" where
  "aplicar_update data fecha r =
     r\<lparr>nombre := (case dat_nombre data of None \<Rightarrow> nombre r | Some t \<Rightarrow> strip t),
       descripcion :=
         (case dat_descripcion data of
            Some (Some t) \<Rightarrow> (if strip t = [] then None else Some (strip t))
          | _ \<Rightarrow> descripcion r),
       unidad_medida := (case dat_unidad_medida data of None \<Rightarrow> unidad_medida r | Some t \<Rightarrow> strip t),
       stock_actual := set_stock (dat_stock_actual data) (stock_actual r),
       stock_minimo := set_stock (dat_stock_minimo data) (stock_minimo r),
       fecha_actualizacion := fecha\<rparr>"

text \<open>\<^verbatim>\<open>if not update_fields\<close>: no key of the payload contributes to the \<^verbatim>\<open>SET\<close> list.\<close>

definition sin_campos :: "ingrediente_data \<Rightarrow> bool" where
  "sin_campos data =
     (dat_nombre data = None \<and> dat_descripcion data = None \<and> dat_unidad_medida data = None \<and>
      (dat_stock_actual data = None \<or> dat_stock_actual data = Some Nulo) \<and>
      (dat_stock_minimo data = None \<or> dat_stock_minimo data = Some Nulo))"

text \<open>
  Modelled from the spec: the uniqueness constraint on the ingredient's name, which lives
  in the schema and not in \<^verbatim>\<open>app.py\<close> (the route only handles its violation,
  \<^verbatim>\<open>IntegrityError\<close> with code 1, by answering 409). The update violates it when it would
  give the row the name another row has.
\<close>

definition nombre_duplicado :: "db \<Rightarrow> int \<Rightarrow> ingrediente_data \<Rightarrow> bool" where
  "nombre_duplicado cursor ident data =
     (case dat_nombre data of
        None \<Rightarrow> False
      | Some t \<Rightarrow>
          list_ex (\<lambda>r. id_ingrediente r \<noteq> ident \<and> nombre r = strip t) (SGIC_INGREDIENTES cursor))"

text \<open>
  \<^verbatim>\<open>update_ingrediente(ingrediente_id)\<close>. \<^verbatim>\<open>if not data\<close> holds for a payload with no key.
  \<^verbatim>\<open>data.get('descripcion', '').strip()\<close> raises \<^verbatim>\<open>AttributeError\<close> on \<^verbatim>\<open>null\<close>, which the
  \<^verbatim>\<open>except Exception\<close> handler answers with 500.
\<close>

definition update_ingrediente ::
  "entorno \<Rightarrow> int \<Rightarrow> ingrediente_data \<Rightarrow> db \<Rightarrow> db \<times> respuesta" where
  "update_ingrediente env ingrediente_id data pool =
     (if dat_nombre data = None \<and> dat_descripcion data = None \<and> dat_unidad_medida data = None \<and>
         dat_stock_actual data = None \<and> dat_stock_minimo data = None
      then (pool, responder 400 No_se_enviaron_datos)
      else if validate_ingrediente_data data True \<noteq> []
      then (pool, responder 400 (Datos_invalidos (validate_ingrediente_data data True)))
      else if select_ingrediente pool ingrediente_id = None
      then (pool, responder 404 No_encontrado)
      else if dat_descripcion data = Some None
      then (pool, responder 500 (Error_interno AttributeError))
      else if sin_campos data
      then (pool, responder 200 (No_hay_campos ingrediente_id))
      else if nombre_duplicado pool ingrediente_id data
      then (pool, responder 409 Nombre_ya_existe)
      else
        (let cursor = pool\<lparr>SGIC_INGREDIENTES :=
                        map (\<lambda>r. if id_ingrediente r = ingrediente_id
                                  then aplicar_update data (ahora env 0) r else r)
                          (SGIC_INGREDIENTES pool)\<rparr>
         in (cursor, responder 200 (Ingrediente_actualizado (select_ingrediente cursor ingrediente_id)))))"

section \<open>The route \<^verbatim>\<open>GET /api/productos/<id>\<close>\<close>

text \<open>
  The recipe query of \<^verbatim>\<open>get_producto_by_id\<close>: the recipe rows of the product joined with
  their ingredient rows, \<^verbatim>\<open>ORDER BY i.nombre\<close>. Names are compared character by character
  (the binary collation).
\<close>

definition join_ingrediente :: "db \<Rightarrow> producto_ingrediente \<Rightarrow> linea_receta list" where
  "join_ingrediente cursor fila =
     map (\<lambda>i. \<lparr>rec_id_ingrediente = pi_id_ingrediente_fk fila, nombre_ingrediente = nombre i,
                rec_cantidad_necesaria = cantidad_necesaria fila,
                rec_unidad_medida_receta = unidad_medida_receta fila\<rparr>)
       (filter (\<lambda>i. id_ingrediente i = pi_id_ingrediente_fk fila) (SGIC_INGREDIENTES cursor))"

definition ingredientes_receta_ordenados :: "db \<Rightarrow> int \<Rightarrow> linea_receta list" where
  "ingredientes_receta_ordenados cursor producto_id =
     sort_key nombre_ingrediente
       (concat (map (join_ingrediente cursor)
          (filter (\<lambda>r. pi_id_producto_fk r = producto_id) (SGIC_PRODUCTO_INGREDIENTES cursor))))"

definition get_producto_by_id :: "int \<Rightarrow> db \<Rightarrow> respuesta" where
  "get_producto_by_id producto_id pool =
     (case select_producto pool producto_id of
        None \<Rightarrow> responder 404 No_encontrado
      | Some producto_dict \<Rightarrow>
          responder 200 (Producto_con_receta producto_dict
                           (ingredientes_receta_ordenados pool producto_id)))"

section \<open>Runs of the engine, and a sample store\<close>

text \<open>
  A sequence of committed stock adjustments: each is one call of the engine whose
  transaction is then committed, so every call of the sequence succeeds. \<open>None\<close> when
  some call raises (that adjustment is rolled back, not committed).
\<close>

record ajuste =
  aj_id_ingrediente :: int
  aj_cantidad :: decimal
  aj_tipo :: string
  aj_observacion :: nota
  aj_fecha :: nat
  aj_id_venta :: "int option"

fun ajustes_confirmados :: "ajuste list \<Rightarrow> db \<Rightarrow> db option" where
  "ajustes_confirmados [] cursor = Some cursor"
| "ajustes_confirmados (a # resto) cursor =
     (case actualizar_stock_ingrediente_db (aj_id_ingrediente a) (aj_cantidad a) (aj_tipo a)
             (aj_observacion a) (aj_fecha a) (aj_id_venta a) cursor of
        (Inr u, cursor') \<Rightarrow> ajustes_confirmados resto cursor'
      | (Inl e, cursor') \<Rightarrow> None)"

text \<open>The movement row the engine writes for an adjustment.\<close>

definition movimiento_de :: "ajuste \<Rightarrow> movimiento" where
  "movimiento_de a =
     \<lparr>mov_id_ingrediente_fk = aj_id_ingrediente a, mov_id_venta_fk = aj_id_venta a,
      tipo_movimiento = aj_tipo a, cantidad = abs_float (aj_cantidad a),
      fecha_movimiento = aj_fecha a, mov_observacion = aj_observacion a\<rparr>"

text \<open>The stock of an ingredient as a query reads it.\<close>

definition stock_de :: "db \<Rightarrow> int \<Rightarrow> decimal option" where
  "stock_de cursor ident = map_option stock_actual (select_ingrediente cursor ident)"

text \<open>
  A small store for the concrete runs below: milk (10.000 L) and sugar (0.015 kg), and a
  latte whose recipe rows were inserted milk first: 0.200 L of milk and 0.010 kg of sugar
  per unit.
\<close>

definition leche :: ingrediente where
  "leche = \<lparr>id_ingrediente = 1, nombre = ''Leche'', descripcion = None, unidad_medida = ''L'',
     stock_actual = Decimal 10000 (- 3), stock_minimo = Decimal 2000 (- 3),
     fecha_actualizacion = 0\<rparr>"

definition azucar :: ingrediente where
  "azucar = \<lparr>id_ingrediente = 2, nombre = ''Azucar'', descripcion = None, unidad_medida = ''kg'',
     stock_actual = Decimal 15 (- 3), stock_minimo = Decimal 0 (- 3),
     fecha_actualizacion = 0\<rparr>"

definition latte :: producto where
  "latte = \<lparr>id_producto = 1, prod_nombre = ''Latte'', precio_venta = Decimal 350 (- 2)\<rparr>"

definition cafeteria :: db where
  "cafeteria = \<lparr>SGIC_INGREDIENTES = [leche, azucar], SGIC_MOVIMIENTOS_INVENTARIO = [],
     SGIC_VENTAS = [], SGIC_PRODUCTOS = [latte],
     SGIC_PRODUCTO_INGREDIENTES =
       [\<lparr>pi_id_producto_fk = 1, pi_id_ingrediente_fk = 1, cantidad_necesaria = Decimal 200 (- 3),
          unidad_medida_receta = ''L''\<rparr>,
        \<lparr>pi_id_producto_fk = 1, pi_id_ingrediente_fk = 2, cantidad_necesaria = Decimal 10 (- 3),
          unidad_medida_receta = ''kg''\<rparr>]\<rparr>"

definition reloj :: entorno where
  "reloj = \<lparr>ahora = (\<lambda>n. 100 + n), new_id_venta = 7\<rparr>"

text \<open>
  Two sale requests for the latte, of one and of two units, and the cursor of the second
  sale's transaction after the sale row and the milk line: the sugar (0.015 kg) does not
  cover the 0.020 kg two lattes need.
\<close>

definition venta_1 :: venta_data where
  "venta_1 = \<lparr>vta_id_producto = Valor 1, vta_cantidad_vendida = Valor 1,
     vta_observacion_venta = None\<rparr>"

definition venta_2 :: venta_data where
  "venta_2 = \<lparr>vta_id_producto = Valor 1, vta_cantidad_vendida = Valor 2,
     vta_observacion_venta = None\<rparr>"

definition tras_leche :: db where
  "tras_leche = cafeteria\<lparr>SGIC_INGREDIENTES := [leche\<lparr>stock_actual := Decimal 9600 (- 3)\<rparr>, azucar],
     SGIC_MOVIMIENTOS_INVENTARIO :=
       [\<lparr>mov_id_ingrediente_fk = 1, mov_id_venta_fk = Some 7, tipo_movimiento = ''SALIDA_VENTA'',
         cantidad = Decimal 400 (- 3), fecha_movimiento = 101,
         mov_observacion = Salida_por_venta 7 2 ''Latte''\<rparr>],
     SGIC_VENTAS :=
       [\<lparr>id_venta = 7, venta_id_producto_fk = 1, cantidad_vendida = 2,
         precio_unitario_venta = Decimal 350 (- 2), monto_total_venta = Decimal 700 (- 2),
         fecha_venta = 100, venta_observacion = Venta_de 2 ''Latte''\<rparr>]\<rparr>"

section \<open>Properties of the decimal arithmetic\<close>

lemma dec_less_cero: "dec_less x cero \<longleftrightarrow> coef x < 0"
  by (simp add: dec_less_def cero_def Let_def mult_less_0_iff)

lemma cero_dec_less: "dec_less cero x \<longleftrightarrow> 0 < coef x"
  by (simp add: dec_less_def cero_def Let_def zero_less_mult_iff)

lemma dec_le_cero: "dec_le x cero \<longleftrightarrow> coef x \<le> 0"
proof -
  have "\<not> (10::int) ^ n \<le> 0" for n
    by (simp add: not_le)
  then show ?thesis
    by (simp add: dec_le_def cero_def Let_def mult_le_0_iff)
qed

lemma ndigits_pos: "0 < ndigits n"
  by (subst ndigits.simps) simp

lemma ndigits_le_iff: "0 < k \<Longrightarrow> ndigits n \<le> k \<longleftrightarrow> n < 10 ^ k"
proof (induction n arbitrary: k rule: ndigits.induct)
  case (1 n)
  show ?case
  proof (cases "n < 10")
    case True
    have "(10::int) ^ 1 \<le> 10 ^ k"
      using "1.prems" by (intro power_increasing) auto
    with True "1.prems" show ?thesis
      by (subst ndigits.simps) auto
  next
    case False
    show ?thesis
    proof (cases k)
      case 0
      with "1.prems" show ?thesis by simp
    next
      case (Suc j)
      show ?thesis
      proof (cases "j = 0")
        case True
        with False Suc show ?thesis
          using ndigits_pos [of "n div 10"] by (subst ndigits.simps) auto
      next
        case j: False
        have "ndigits (n div 10) \<le> j \<longleftrightarrow> n div 10 < 10 ^ j"
          using "1.IH" [OF False, of j] j by simp
        moreover have "n div 10 < m \<longleftrightarrow> n < 10 * m" for m :: int
          by presburger
        then have "n div 10 < 10 ^ j \<longleftrightarrow> n < 10 ^ Suc j"
          by simp
        ultimately show ?thesis
          using False Suc by (subst ndigits.simps) auto
      qed
    qed
  qed
qed


lemma dec_fix_small: "ndigits \<bar>coef d\<bar> \<le> prec \<Longrightarrow> dec_fix d = d"
  by (simp add: dec_fix_def Let_def)

lemma dec_fix_nonneg: "0 \<le> coef d \<Longrightarrow> 0 \<le> coef (dec_fix d)"
  by (auto simp add: dec_fix_def Let_def sgn_if pos_imp_zdiv_nonneg_iff)

lemma suma_coef_nonneg: "0 \<le> coef x \<Longrightarrow> 0 \<le> coef y \<Longrightarrow> 0 \<le> suma_coef x y"
  by (simp add: suma_coef_def Let_def)

lemma dec_add_nonneg: "0 \<le> coef x \<Longrightarrow> 0 \<le> coef y \<Longrightarrow> 0 \<le> coef (dec_add x y)"
  by (simp add: dec_add_def dec_fix_nonneg suma_coef_nonneg)


lemma quantize_nonneg: "0 \<le> coef d \<Longrightarrow> quantize d = Inr q \<Longrightarrow> 0 \<le> coef q"
  by (auto simp add: quantize_def rescale_half_up_def Let_def sgn_if pos_imp_zdiv_nonneg_iff split: if_splits)

lemma floor_half_up:
  fixes a m :: int
  assumes "0 \<le> a" "0 < m"
  shows "\<lfloor>(of_int a / of_int m :: rat) + 1 / 2\<rfloor> = a div m + (if m \<le> 2 * (a mod m) then 1 else 0)"
proof -
  have "(of_int a / of_int m :: rat) + 1 / 2 = of_int (2 * a + m) / of_int (2 * m)"
    using assms by (simp add: field_simps)
  then have "\<lfloor>(of_int a / of_int m :: rat) + 1 / 2\<rfloor> = (2 * a + m) div (2 * m)"
    by (simp only: floor_divide_of_int_eq)
  also have "\<dots> = a div m + (if m \<le> 2 * (a mod m) then 1 else 0)"
  proof -
    define q r where "q = a div m" and "r = a mod m"
    have a: "a = q * m + r" and r: "0 \<le> r" "r < m"
      using assms by (simp_all add: q_def r_def)
    have "2 * a + m = (q + (if m \<le> 2 * r then 1 else 0)) * (2 * m) + (if m \<le> 2 * r then 2 * r - m else 2 * r + m)"
      by (simp add: a algebra_simps)
    moreover have "0 \<le> (if m \<le> 2 * r then 2 * r - m else 2 * r + m)" 
      "(if m \<le> 2 * r then 2 * r - m else 2 * r + m) < 2 * m"
      using r by auto
    ultimately have "(2 * a + m) div (2 * m) = q + (if m \<le> 2 * r then 1 else 0)"
      using assms(2) by (intro int_div_pos_eq) auto
    then show ?thesis by (simp add: q_def r_def)
  qed
  finally show ?thesis .
qed

lemma dec_val_Decimal_neg: "e < 0 \<Longrightarrow> dec_val (Decimal c e) = of_int c / 10 ^ nat (- e)"
  by (simp add: dec_val_def)

lemma dec_val_milesimas: "dec_val (Decimal c (- 3)) = of_int c / 1000"
  by (simp add: dec_val_def)

lemma dec_val_scale:
  "e' \<le> e \<Longrightarrow> dec_val (Decimal (c * 10 ^ nat (e - e')) e') = dec_val (Decimal c e)"
proof -
  assume le: "e' \<le> e"
  show ?thesis
  proof (cases "0 \<le> e'")
    case True
    then have "nat e = nat (e - e') + nat e'" using le by simp
    then show ?thesis using True le by (simp add: dec_val_def power_add mult.assoc)
  next
    case neg: False
    show ?thesis
    proof (cases "0 \<le> e")
      case True
      then have "nat (- e') + nat e = nat (e - e')" using neg by simp
      then have "(10::rat) ^ nat (e - e') = 10 ^ nat e * 10 ^ nat (- e')"
        by (metis power_add mult.commute)
      then show ?thesis using True neg by (simp add: dec_val_def)
    next
      case False
      then have "nat (- e') = nat (e - e') + nat (- e)" using le by simp
      then have "(10::rat) ^ nat (- e') = 10 ^ nat (e - e') * 10 ^ nat (- e)"
        by (simp add: power_add)
      then show ?thesis using False neg by (simp add: dec_val_def)
    qed
  qed
qed

lemma dec_val_same_expo:
  "dec_val (Decimal (a + b) e) = dec_val (Decimal a e) + dec_val (Decimal b e)"
  by (simp add: dec_val_def add_divide_distrib distrib_right)

lemma dec_val_suma:
  "dec_val (Decimal (suma_coef x y) (min (expo x) (expo y))) = dec_val x + dec_val y"
proof -
  let ?e = "min (expo x) (expo y)"
  have "dec_val (Decimal (coef x * 10 ^ nat (expo x - ?e)) ?e) = dec_val (Decimal (coef x) (expo x))"
    by (rule dec_val_scale) simp
  moreover have "dec_val (Decimal (coef y * 10 ^ nat (expo y - ?e)) ?e) = dec_val (Decimal (coef y) (expo y))"
    by (rule dec_val_scale) simp
  ultimately show ?thesis
    by (simp add: suma_coef_def Let_def dec_val_same_expo)
qed


lemma round_half_up_3_milesimas: "round_half_up_3 (of_int m / 1000) = of_int m / 1000"
proof -
  have "\<bar>(of_int m / 1000 :: rat)\<bar> * 1000 + 1 / 2 = of_int \<bar>m\<bar> + 1 / 2"
    by simp
  moreover have "\<lfloor>(of_int \<bar>m\<bar> :: rat) + 1 / 2\<rfloor> = \<bar>m\<bar>"
    by (rule floor_unique) simp_all
  moreover have "sgn (of_int m / 1000 :: rat) = of_int (sgn m)"
    by (simp add: sgn_if)
  ultimately show ?thesis
    unfolding round_half_up_3_def by (simp add: sgn_if)
qed

lemma round_half_up_3_small_expo:
  assumes "e < - 3" "c \<noteq> 0"
  defines "k \<equiv> nat (- 3 - e)"
  shows "round_half_up_3 (dec_val (Decimal c e)) =
         of_int (sgn c * (\<bar>c\<bar> div 10 ^ k + (if 10 ^ k \<le> 2 * (\<bar>c\<bar> mod 10 ^ k) then 1 else 0))) / 1000"
proof -
  have ne: "nat (- e) = k + 3"
    using assms(1) by (simp add: k_def)
  have x: "dec_val (Decimal c e) = of_int c / (10 ^ k * 1000)"
    using assms(1) by (simp add: dec_val_def ne power_add)
  have "\<bar>dec_val (Decimal c e)\<bar> * 1000 = of_int \<bar>c\<bar> / of_int (10 ^ k)"
    by (simp add: x abs_mult)
  then have "\<lfloor>\<bar>dec_val (Decimal c e)\<bar> * 1000 + 1 / 2\<rfloor> =
        \<bar>c\<bar> div 10 ^ k + (if 10 ^ k \<le> 2 * (\<bar>c\<bar> mod 10 ^ k) then 1 else 0)"
    using floor_half_up [of "\<bar>c\<bar>" "10 ^ k"] by simp
  moreover have "sgn (dec_val (Decimal c e)) = of_int (sgn c)"
    by (simp add: x sgn_if zero_less_divide_iff divide_less_0_iff)
  ultimately show ?thesis
    unfolding round_half_up_3_def by simp
qed

lemma round_half_up_3_zero: "round_half_up_3 0 = 0"
  by (simp add: round_half_up_3_def)

lemma dec_val_zero: "dec_val (Decimal 0 e) = 0"
  by (simp add: dec_val_def)

lemma rescale_half_up_val:
  "dec_val (Decimal (rescale_half_up d) (- 3)) = round_half_up_3 (dec_val d)"
proof (cases d)
  case (Decimal c e)
  show ?thesis
  proof (cases "- 3 \<le> e")
    case True
    then have q: "rescale_half_up d = c * 10 ^ nat (e + 3)"
      by (simp add: rescale_half_up_def Decimal)
    have sc: "dec_val (Decimal (c * 10 ^ nat (e + 3)) (- 3)) = dec_val (Decimal c e)"
      using True dec_val_scale [of "- 3" e c] by simp
    have same: "dec_val (Decimal (rescale_half_up d) (- 3)) = dec_val d"
      unfolding q unfolding Decimal by (rule sc)
    have "round_half_up_3 (dec_val (Decimal (rescale_half_up d) (- 3))) =
          dec_val (Decimal (rescale_half_up d) (- 3))"
      unfolding dec_val_milesimas by (rule round_half_up_3_milesimas)
    then show ?thesis
      by (simp only: same)
  next
    case False
    then have e: "e < - 3" by simp
    show ?thesis
    proof (cases "c = 0")
      case True
      with e Decimal show ?thesis
        by (simp add: rescale_half_up_def dec_val_zero round_half_up_3_zero)
    next
      case c: False
      have q: "rescale_half_up d = sgn c * (\<bar>c\<bar> div 10 ^ nat (- 3 - e) +
                 (if 10 ^ nat (- 3 - e) \<le> 2 * (\<bar>c\<bar> mod 10 ^ nat (- 3 - e)) then 1 else 0))"
        using e by (simp add: rescale_half_up_def Decimal Let_def)
      show ?thesis
        unfolding Decimal round_half_up_3_small_expo [OF e c] q [unfolded Decimal] dec_val_milesimas ..
    qed
  qed
qed

lemma quantize_val:
  assumes "quantize d = Inr q"
  shows "dec_val q = round_half_up_3 (dec_val d)"
proof (cases "coef d = 0")
  case True
  then have "dec_val d = 0"
    by (cases d) (simp add: dec_val_zero)
  with True assms show ?thesis
    by (auto simp add: quantize_def dec_val_zero round_half_up_3_zero)
next
  case False
  with assms have "q = Decimal (rescale_half_up d) (- 3)"
    by (auto simp add: quantize_def split: if_splits)
  then show ?thesis
    by (simp add: rescale_half_up_val)
qed

lemma ndigits_ge_iff: "0 < k \<Longrightarrow> k < ndigits n \<longleftrightarrow> 10 ^ k \<le> n"
  using ndigits_le_iff [of k n] by auto









lemma round_half_up_3_exact:
  assumes "- 3 \<le> expo d"
  shows "round_half_up_3 (dec_val d) = dec_val d"
proof -
  obtain c e where d: "d = Decimal c e" by (cases d)
  have "dec_val (Decimal (c * 10 ^ nat (e + 3)) (- 3)) = dec_val (Decimal c e)"
    using assms dec_val_scale [of "- 3" e c] by (simp add: d)
  then have "dec_val d = of_int (c * 10 ^ nat (e + 3)) / 1000"
    by (simp only: d dec_val_milesimas)
  then show ?thesis
    by (simp only: round_half_up_3_milesimas)
qed

lemma dec_fix_rounded:
  assumes "prec < ndigits \<bar>c\<bar>"
  shows "\<exists>c' e'. dec_fix (Decimal c e) = Decimal c' e' \<and> 10 ^ 27 \<le> \<bar>c'\<bar> \<and> e < e'"
proof -
  define a where "a = \<bar>c\<bar>"
  define k where "k = ndigits a - prec"
  define q where "q = a div 10 ^ k"
  define q' where "q' = (if 10 ^ k < 2 * (a mod 10 ^ k) \<or> (2 * (a mod 10 ^ k) = 10 ^ k \<and> odd q) then q + 1 else q)"
  have k: "0 < k" and n: "ndigits a = 27 + k + 1"
    using assms by (simp_all add: k_def a_def prec_def)
  have "27 + k < ndigits a" using n by simp
  then have "10 ^ (27 + k) \<le> a"
    by (simp add: ndigits_ge_iff)
  then have "(10 ^ 27 * 10 ^ k) div 10 ^ k \<le> a div 10 ^ k"
    by (intro zdiv_mono1) (simp_all add: power_add)
  then have q: "10 ^ 27 \<le> q"
    by (simp add: q_def)
  then have q': "10 ^ 27 \<le> q'"
    by (simp add: q'_def)
  have "(0::int) < 10 ^ (27 + k)"
    by simp
  then have "0 < a"
    using \<open>10 ^ (27 + k) \<le> a\<close> by (rule less_le_trans)
  then have c: "c \<noteq> 0"
    by (auto simp add: a_def)
  have fx: "dec_fix (Decimal c e) =
      (if prec < ndigits q' then Decimal (sgn c * (q' div 10)) (e + int k + 1)
       else Decimal (sgn c * q') (e + int k))"
  proof -
    have nle: "(ndigits \<bar>c\<bar> \<le> prec) = False"
      using assms by simp
    show ?thesis
      unfolding q'_def q_def k_def a_def dec_fix_def Let_def decimal.sel nle if_False ..
  qed
  show ?thesis
  proof (cases "prec < ndigits q'")
    case True
    then have "10 ^ 28 \<le> q'"
      by (simp add: prec_def ndigits_ge_iff)
    then have "10 ^ 27 \<le> q' div 10"
      by simp
    then have "10 ^ 27 \<le> \<bar>sgn c * (q' div 10)\<bar>"
      using c by (simp add: abs_mult)
    with True fx k show ?thesis by simp
  next
    case False
    have "10 ^ 27 \<le> \<bar>sgn c * q'\<bar>"
      using c q' by (simp add: abs_mult)
    with False fx k show ?thesis by simp
  qed
qed

lemma quantize_rounded_fails:
  assumes "prec < ndigits \<bar>c\<bar>" "- 3 \<le> e"
  shows "quantize (dec_fix (Decimal c e)) = Inl InvalidOperation"
proof -
  obtain c' e' where f: "dec_fix (Decimal c e) = Decimal c' e'" and c': "10 ^ 27 \<le> \<bar>c'\<bar>" and e': "e < e'"
    using dec_fix_rounded [OF assms(1)] by blast
  have "27 < ndigits \<bar>c'\<bar>"
    using c' by (simp add: ndigits_ge_iff)
  then have "int prec < int (ndigits \<bar>c'\<bar>) + e' + 3"
    using e' assms(2) by (simp add: prec_def)
  moreover have "c' \<noteq> 0" using c' by auto
  ultimately show ?thesis
    by (simp add: f quantize_def)
qed

lemma quantize_dec_add_exact:
  assumes "- 3 \<le> expo x" "- 3 \<le> expo y" "quantize (dec_add x y) = Inr q"
  shows "dec_val q = dec_val x + dec_val y"
proof (cases "prec < ndigits \<bar>suma_coef x y\<bar>")
  case True
  then have "quantize (dec_add x y) = Inl InvalidOperation"
    unfolding dec_add_def using assms(1,2) by (intro quantize_rounded_fails) simp_all
  with assms(3) show ?thesis by simp
next
  case False
  then have add: "dec_add x y = Decimal (suma_coef x y) (min (expo x) (expo y))"
    by (simp add: dec_add_def dec_fix_small)
  have "dec_val q = round_half_up_3 (dec_val (dec_add x y))"
    using assms(3) by (rule quantize_val)
  also have "\<dots> = dec_val (dec_add x y)"
    using assms(1,2) by (intro round_half_up_3_exact) (simp add: add)
  also have "\<dots> = dec_val x + dec_val y"
    by (simp only: add dec_val_suma)
  finally show ?thesis .
qed

section \<open>Properties of the stock adjustment engine\<close>



lemma engine_not_found:
  "select_ingrediente cursor ident = None \<Longrightarrow>
   actualizar_stock_ingrediente_db ident d tipo observ fecha vid cursor =
     (Inl (Ingrediente_no_encontrado ident), cursor)"
  by (simp add: actualizar_stock_ingrediente_db_def)

lemma engine_invalid:
  "select_ingrediente cursor ident = Some r \<Longrightarrow>
   quantize (dec_add (stock_actual r) d) = Inl e \<Longrightarrow>
   actualizar_stock_ingrediente_db ident d tipo observ fecha vid cursor = (Inl e, cursor)"
  by (simp add: actualizar_stock_ingrediente_db_def)


lemma engine_success:
  "select_ingrediente cursor ident = Some r \<Longrightarrow>
   quantize (dec_add (stock_actual r) d) = Inr q \<Longrightarrow> \<not> dec_less q cero \<Longrightarrow>
   actualizar_stock_ingrediente_db ident d tipo observ fecha vid cursor =
     (Inr (),
      cursor\<lparr>SGIC_INGREDIENTES := update_stock ident q (SGIC_INGREDIENTES cursor),
             SGIC_MOVIMIENTOS_INVENTARIO := SGIC_MOVIMIENTOS_INVENTARIO cursor @
               [\<lparr>mov_id_ingrediente_fk = ident, mov_id_venta_fk = vid, tipo_movimiento = tipo,
                 cantidad = abs_float d, fecha_movimiento = fecha, mov_observacion = observ\<rparr>]\<rparr>)"
  by (simp add: actualizar_stock_ingrediente_db_def)

lemma engine_error_unchanged:
  "actualizar_stock_ingrediente_db ident d tipo observ fecha vid cursor = (Inl e, cursor') \<Longrightarrow>
   cursor' = cursor"
  by (auto simp add: actualizar_stock_ingrediente_db_def Let_def
      split: option.splits sum.splits if_splits)

lemma engine_error_cases:
  "actualizar_stock_ingrediente_db ident d tipo observ fecha vid cursor = (Inl e, cursor') \<Longrightarrow>
   e = Ingrediente_no_encontrado ident \<or>
   (\<exists>r. select_ingrediente cursor ident = Some r \<and>
        e = Stock_insuficiente (nombre r) ident (dec_abs d) (stock_actual r)) \<or>
   e = InvalidOperation"
  by (auto simp add: actualizar_stock_ingrediente_db_def Let_def quantize_def
      split: option.splits sum.splits if_splits)

lemma round_half_up_3_nonneg: "0 \<le> x \<Longrightarrow> 0 \<le> round_half_up_3 x"
  by (simp add: round_half_up_3_def sgn_if)


lemma select_cafeteria_1: "select_ingrediente cafeteria 1 = Some leche"
  by (simp add: select_ingrediente_def cafeteria_def leche_def)






section \<open>Properties of the inventory entry route\<close>

lemma ndigits_numeral:
  "ndigits (numeral k) = (if (numeral k :: int) < 10 then 1 else Suc (ndigits (numeral k div 10)))"
  by (rule ndigits.simps)

lemma ndigits_0: "ndigits 0 = 1"
  by (simp add: ndigits.simps)

lemma ndigits_1: "ndigits 1 = 1"
  by (simp add: ndigits.simps)

lemmas dec_eval = ndigits_numeral ndigits_0 ndigits_1 quantize_def dec_add_def dec_mul_def dec_neg_def dec_abs_def suma_coef_def
  dec_fix_def rescale_half_up_def prec_def dec_le_def dec_less_def cero_def dec_of_int_def
  abs_float_def Let_def

lemmas store_eval = select_ingrediente_def select_producto_def select_receta_def update_stock_def
  cafeteria_def leche_def azucar_def latte_def reloj_def

subsection \<open>Strings\<close>





lemma upper_char_fixes_others: "\<not> islower c \<Longrightarrow> upper_char c = c"
  by (simp add: upper_char_def)

lemma upper_default: "upper (strip ''ENTRADA_COMPRA'') = ''ENTRADA_COMPRA''"
  by (simp add: upper_def strip_def upper_char_def isspace_def islower_def)


lemma respuesta_de_error_status:
  "status (respuesta_de_error e) = (if is_ValueError e then 400 else 500)"
  by (simp add: respuesta_de_error_def responder_def)

lemma entrada_bien_formada:
  assumes "ent_id_ingrediente data = Valor ident" "ent_cantidad data = Valor c"
    and "dec_less cero c" "tipo_movimiento_de (ent_tipo_movimiento data) = Inr tipo"
  shows "registrar_entrada_inventario env data pool =
     (case actualizar_stock_ingrediente_db ident c tipo
             (case ent_observacion data of None \<Rightarrow> Entrada_de c | Some t \<Rightarrow> Texto t)
             (ahora env 0) None pool of
        (Inr u, cursor) \<Rightarrow>
          (cursor, responder 200 (Entrada_registrada (select_ingrediente cursor ident)))
      | (Inl e, cursor) \<Rightarrow> (pool, respuesta_de_error e))"
proof -
  have "\<not> dec_le c cero"
    using assms(3) by (simp add: dec_le_cero cero_dec_less)
  with assms show ?thesis
    by (simp add: registrar_entrada_inventario_def Let_def)
qed

lemma entrada_status:
  "status (snd (registrar_entrada_inventario env data pool)) \<in> {200, 400, 500}"
  by (auto simp add: registrar_entrada_inventario_def Let_def responder_def
      respuesta_de_error_status split: campo.splits sum.splits prod.splits)





text \<open>
  Claim C9. For every inventory entry with a strictly positive quantity applied to an
  existing ingredient whose current stock is not negative, the insufficient-stock branch of
  the engine is unreachable: neither the engine nor the route answers with the
  insufficient-stock error, whatever values that error would carry.
\<close>

theorem entrada_never_insufficient_stock:
  assumes found: "select_ingrediente pool ident = Some r"
    and nonneg: "\<not> dec_less (stock_actual r) cero"
    and positive: "dec_less cero d"
  shows "fst (actualizar_stock_ingrediente_db ident d tipo observ fecha vid pool) \<noteq>
           Inl (Stock_insuficiente n i requiere disponible) \<and>
         body (snd (registrar_entrada_inventario env
                 \<lparr>ent_id_ingrediente = Valor ident, ent_cantidad = Valor d,
                  ent_tipo_movimiento = t, ent_observacion = ob\<rparr> pool)) \<noteq>
           Error_ValueError (Stock_insuficiente n i requiere disponible)"
proof -
  have s: "0 \<le> coef (dec_add (stock_actual r) d)"
    using nonneg positive by (intro dec_add_nonneg) (simp_all add: dec_less_cero cero_dec_less)
  have engine: "fst (actualizar_stock_ingrediente_db ident d tipo' observ' fecha' vid' pool) \<noteq>
           Inl (Stock_insuficiente n i requiere disponible)" for tipo' observ' fecha' vid'
  proof (cases "quantize (dec_add (stock_actual r) d)")
    case (Inl e)
    then have "e = InvalidOperation"
      by (auto simp add: quantize_def split: if_splits)
    with Inl found show ?thesis
      by (simp add: engine_invalid)
  next
    case (Inr q)
    then have "\<not> dec_less q cero"
      using quantize_nonneg [OF s Inr] by (simp add: dec_less_cero)
    with Inr found show ?thesis
      by (simp add: engine_success)
  qed
  have "body (snd (registrar_entrada_inventario env
                 \<lparr>ent_id_ingrediente = Valor ident, ent_cantidad = Valor d,
                  ent_tipo_movimiento = t, ent_observacion = ob\<rparr> pool)) \<noteq>
           Error_ValueError (Stock_insuficiente n i requiere disponible)"
  proof (cases "tipo_movimiento_de t")
    case (Inl e)
    have "\<not> dec_le d cero"
      using positive by (simp add: dec_le_cero cero_dec_less)
    with Inl show ?thesis
      by (simp add: registrar_entrada_inventario_def responder_def)
  next
    case (Inr tp)
    let ?run = "actualizar_stock_ingrediente_db ident d tp
        (case ob of None \<Rightarrow> Entrada_de d | Some x \<Rightarrow> Texto x) (ahora env 0) None pool"
    have "fst ?run \<noteq> Inl (Stock_insuficiente n i requiere disponible)"
      by (rule engine)
    then show ?thesis
      using positive Inr
      by (cases ?run; cases "fst ?run")
         (auto simp add: entrada_bien_formada responder_def respuesta_de_error_def)
  qed
  with engine show ?thesis by simp
qed


text \<open>
  A purchase of 5.500 L of milk on the sample store.
\<close>

theorem entrada_never_insufficient_stock_witness:
  "select_ingrediente cafeteria 1 = Some leche \<and> \<not> dec_less (stock_actual leche) cero \<and>
   dec_less cero (Decimal 5500 (- 3)) \<and>
   fst (actualizar_stock_ingrediente_db 1 (Decimal 5500 (- 3)) ''ENTRADA_COMPRA''
          (Entrada_de (Decimal 5500 (- 3))) 100 None cafeteria) \<noteq>
     Inl (Stock_insuficiente ''Leche'' 1 (Decimal 5500 (- 3)) (Decimal 10000 (- 3))) \<and>
   body (snd (registrar_entrada_inventario reloj
           \<lparr>ent_id_ingrediente = Valor 1, ent_cantidad = Valor (Decimal 5500 (- 3)),
            ent_tipo_movimiento = Falta, ent_observacion = None\<rparr> cafeteria)) \<noteq>
     Error_ValueError (Stock_insuficiente ''Leche'' 1 (Decimal 5500 (- 3)) (Decimal 10000 (- 3)))"
proof -
  have h1: "select_ingrediente cafeteria 1 = Some leche"
    by (rule select_cafeteria_1)
  have h2: "\<not> dec_less (stock_actual leche) cero"
    by (simp add: dec_less_cero leche_def)
  have h3: "dec_less cero (Decimal 5500 (- 3))"
    by (simp add: cero_dec_less)
  from h1 h2 h3 entrada_never_insufficient_stock [OF h1 h2 h3] show ?thesis
    by (intro conjI) blast+
qed

text \<open>
  Claim C8 says that an entry naming an ingredient with no row is answered with HTTP 404.
  On the sample store, which has no ingredient 9, the route answers 400: the engine raises
  \<^verbatim>\<open>ValueError\<close> and the route's \<^verbatim>\<open>except ValueError\<close> handler maps every \<^verbatim>\<open>ValueError\<close> to
  400.
\<close>

theorem entrada_missing_ingredient_is_404_counterexample:
  "select_ingrediente cafeteria 9 = None \<and>
   registrar_entrada_inventario reloj
     \<lparr>ent_id_ingrediente = Valor 9, ent_cantidad = Valor (Decimal 1 0),
      ent_tipo_movimiento = Falta, ent_observacion = None\<rparr> cafeteria =
     (cafeteria, \<lparr>status = 400, body = Error_ValueError (Ingrediente_no_encontrado 9)\<rparr>) \<and>
   status (snd (registrar_entrada_inventario reloj
     \<lparr>ent_id_ingrediente = Valor 9, ent_cantidad = Valor (Decimal 1 0),
      ent_tipo_movimiento = Falta, ent_observacion = None\<rparr> cafeteria)) \<noteq> 404"
  by (simp add: registrar_entrada_inventario_def actualizar_stock_ingrediente_db_def
      tipo_movimiento_de_def respuesta_de_error_def responder_def store_eval dec_eval)

text \<open>
  Claim C8, amended. For every entry request with a valid id, a strictly positive quantity
  and a textual (or absent) movement kind that names an ingredient with no row, the
  response is HTTP 400 with the ingredient-not-found message, and the store is unchanged.
  The route never answers 404, for any request.
\<close>

theorem entrada_missing_ingredient_is_400:
  assumes "ent_id_ingrediente data = Valor ident"
    and "ent_cantidad data = Valor c" and "dec_less cero c"
    and "tipo_movimiento_de (ent_tipo_movimiento data) = Inr tipo"
    and "select_ingrediente pool ident = None"
  shows "registrar_entrada_inventario env data pool =
           (pool, \<lparr>status = 400, body = Error_ValueError (Ingrediente_no_encontrado ident)\<rparr>) \<and>
         status (snd (registrar_entrada_inventario env' data' pool')) \<noteq> 404"
proof -
  have "registrar_entrada_inventario env data pool =
           (pool, \<lparr>status = 400, body = Error_ValueError (Ingrediente_no_encontrado ident)\<rparr>)"
    using assms
    by (simp add: entrada_bien_formada engine_not_found respuesta_de_error_def responder_def)
  moreover have "status (snd (registrar_entrada_inventario env' data' pool')) \<noteq> 404"
    using entrada_status [of env' data' pool'] by auto
  ultimately show ?thesis by simp
qed

text \<open>
  An entry for the missing ingredient 9 on the sample store.
\<close>

theorem entrada_missing_ingredient_is_400_witness:
  "ent_id_ingrediente \<lparr>ent_id_ingrediente = Valor 9, ent_cantidad = Valor (Decimal 1 0),
      ent_tipo_movimiento = Valor ''ajuste'', ent_observacion = None\<rparr> = Valor 9 \<and>
   dec_less cero (Decimal 1 0) \<and>
   tipo_movimiento_de (Valor ''ajuste'') = Inr ''AJUSTE'' \<and>
   select_ingrediente cafeteria 9 = None \<and>
   registrar_entrada_inventario reloj
     \<lparr>ent_id_ingrediente = Valor 9, ent_cantidad = Valor (Decimal 1 0),
      ent_tipo_movimiento = Valor ''ajuste'', ent_observacion = None\<rparr> cafeteria =
     (cafeteria, \<lparr>status = 400, body = Error_ValueError (Ingrediente_no_encontrado 9)\<rparr>) \<and>
   status (snd (registrar_entrada_inventario reloj
     \<lparr>ent_id_ingrediente = Valor 1, ent_cantidad = Valor (Decimal 1 0),
      ent_tipo_movimiento = Falta, ent_observacion = None\<rparr> cafeteria)) \<noteq> 404"
proof -
  let ?data = "\<lparr>ent_id_ingrediente = Valor 9, ent_cantidad = Valor (Decimal 1 0),
      ent_tipo_movimiento = Valor ''ajuste'', ent_observacion = None\<rparr>"
  have h1: "ent_id_ingrediente ?data = Valor 9" by simp
  have h2: "ent_cantidad ?data = Valor (Decimal 1 0)" by simp
  have h3: "dec_less cero (Decimal 1 0)" by (simp add: cero_dec_less)
  have t: "tipo_movimiento_de (Valor ''ajuste'') = Inr ''AJUSTE''"
    by code_simp
  then have h4: "tipo_movimiento_de (ent_tipo_movimiento ?data) = Inr ''AJUSTE''" by simp
  have h5: "select_ingrediente cafeteria 9 = None"
    by (simp add: store_eval)
  from h1 h3 t h5 entrada_missing_ingredient_is_400 [OF h1 h2 h3 h4 h5] show ?thesis
    by (intro conjI) blast+
qed




lemma entrada_run_default:
  "registrar_entrada_inventario reloj
     \<lparr>ent_id_ingrediente = Valor 1, ent_cantidad = Valor (Decimal 5 (- 4)),
      ent_tipo_movimiento = Falta, ent_observacion = None\<rparr> cafeteria =
   (cafeteria\<lparr>SGIC_INGREDIENTES := [leche\<lparr>stock_actual := Decimal 10001 (- 3)\<rparr>, azucar],
      SGIC_MOVIMIENTOS_INVENTARIO :=
        [\<lparr>mov_id_ingrediente_fk = 1, mov_id_venta_fk = None, tipo_movimiento = ''ENTRADA_COMPRA'',
          cantidad = Decimal 5 (- 4), fecha_movimiento = 100,
          mov_observacion = Entrada_de (Decimal 5 (- 4))\<rparr>]\<rparr>,
    \<lparr>status = 200,
     body = Entrada_registrada (Some (leche\<lparr>stock_actual := Decimal 10001 (- 3)\<rparr>))\<rparr>)"
proof -
  have t: "tipo_movimiento_de Falta = Inr ''ENTRADA_COMPRA''"
    by (simp add: tipo_movimiento_de_def upper_default)
  show ?thesis
    by (simp add: registrar_entrada_inventario_def actualizar_stock_ingrediente_db_def t
        responder_def store_eval dec_eval)
qed


text \<open>
  Claim C7 says that a quantity with more than 3 fractional digits is rejected and never
  rounded into the stored stock. The route has no such check: an entry of 0.0005 L of milk
  on the sample store (10.000 L) is answered 200, the stock becomes 10.001, and the
  movement carries the magnitude 0.0005. The validator of the ingredient routes rejects
  the same value for a stock field as exceeding 3 decimals.
\<close>

theorem entrada_accepts_fourth_decimal:
  "registrar_entrada_inventario reloj
     \<lparr>ent_id_ingrediente = Valor 1, ent_cantidad = Valor (Decimal 5 (- 4)),
      ent_tipo_movimiento = Falta, ent_observacion = None\<rparr> cafeteria =
   (cafeteria\<lparr>SGIC_INGREDIENTES := [leche\<lparr>stock_actual := Decimal 10001 (- 3)\<rparr>, azucar],
      SGIC_MOVIMIENTOS_INVENTARIO :=
        [\<lparr>mov_id_ingrediente_fk = 1, mov_id_venta_fk = None, tipo_movimiento = ''ENTRADA_COMPRA'',
          cantidad = Decimal 5 (- 4), fecha_movimiento = 100,
          mov_observacion = Entrada_de (Decimal 5 (- 4))\<rparr>]\<rparr>,
    \<lparr>status = 200,
     body = Entrada_registrada (Some (leche\<lparr>stock_actual := Decimal 10001 (- 3)\<rparr>))\<rparr>) \<and>
   validate_ingrediente_data
     \<lparr>dat_nombre = None, dat_descripcion = None, dat_unidad_medida = None,
      dat_stock_actual = Some (Numero (Decimal 5 (- 4))), dat_stock_minimo = None\<rparr> True =
     [Excede_precision Stock_actual]"
  by (simp add: entrada_run_default validate_ingrediente_data_def validate_stock_field_def
      dec_less_def cero_def)

text \<open>
  The same run read through the response and two queries: the status, the stock of milk
  afterwards, and the magnitudes in the movement log.
\<close>

theorem entrada_accepts_fourth_decimal_witness:
  "status (snd (registrar_entrada_inventario reloj
     \<lparr>ent_id_ingrediente = Valor 1, ent_cantidad = Valor (Decimal 5 (- 4)),
      ent_tipo_movimiento = Falta, ent_observacion = None\<rparr> cafeteria)) = 200 \<and>
   stock_de (fst (registrar_entrada_inventario reloj
     \<lparr>ent_id_ingrediente = Valor 1, ent_cantidad = Valor (Decimal 5 (- 4)),
      ent_tipo_movimiento = Falta, ent_observacion = None\<rparr> cafeteria)) 1 =
     Some (Decimal 10001 (- 3)) \<and>
   map cantidad (SGIC_MOVIMIENTOS_INVENTARIO (fst (registrar_entrada_inventario reloj
     \<lparr>ent_id_ingrediente = Valor 1, ent_cantidad = Valor (Decimal 5 (- 4)),
      ent_tipo_movimiento = Falta, ent_observacion = None\<rparr> cafeteria))) = [Decimal 5 (- 4)]"
  using entrada_accepts_fourth_decimal
  by (simp add: stock_de_def select_ingrediente_def leche_def)

section \<open>Properties of the sale route\<close>

lemma select_receta_insert_venta [simp]:
  "select_receta (insert_venta env id_prod n ob p cursor) j = select_receta cursor j"
  by (simp add: select_receta_def insert_venta_def Let_def)

lemma select_ingrediente_insert_venta [simp]:
  "select_ingrediente (insert_venta env id_prod n ob p cursor) j = select_ingrediente cursor j"
  by (simp add: select_ingrediente_def insert_venta_def Let_def)

lemma movimientos_insert_venta [simp]:
  "SGIC_MOVIMIENTOS_INVENTARIO (insert_venta env id_prod n ob p cursor) =
   SGIC_MOVIMIENTOS_INVENTARIO cursor"
  by (simp add: insert_venta_def Let_def)

lemma descontar_receta_append:
  "descontar_receta env vid n nom k antes cursor = (Inr (), cursor_k) \<Longrightarrow>
   descontar_receta env vid n nom k (antes @ resto) cursor =
   descontar_receta env vid n nom (k + length antes) resto cursor_k"
proof (induction antes arbitrary: k cursor)
  case Nil
  then show ?case by simp
next
  case (Cons linea antes)
  obtain id_ing cant where l: "linea = (id_ing, cant)" by (cases linea)
  let ?paso = "actualizar_stock_ingrediente_db id_ing (dec_neg (dec_mul cant (dec_of_int n)))
      ''SALIDA_VENTA'' (Salida_por_venta vid n nom) (ahora env k) (Some vid) cursor"
  obtain res c1 where paso: "?paso = (res, c1)" by (cases ?paso)
  show ?case
  proof (cases res)
    case (Inl e)
    with Cons.prems paso l show ?thesis by (simp add: Let_def)
  next
    case (Inr u)
    with Cons.prems paso l
    have "descontar_receta env vid n nom (Suc k) antes c1 = (Inr (), cursor_k)"
      by (simp add: Let_def)
    then have "descontar_receta env vid n nom (Suc k) (antes @ resto) c1 =
        descontar_receta env vid n nom (Suc k + length antes) resto cursor_k"
      by (rule Cons.IH)
    with Inr paso l show ?thesis by (simp add: Let_def)
  qed
qed

lemma descontar_receta_falla:
  assumes "descontar_receta env vid n nom k antes cursor = (Inr (), cursor_k)"
    and "fst (actualizar_stock_ingrediente_db id_ing (dec_neg (dec_mul cant (dec_of_int n)))
           ''SALIDA_VENTA'' (Salida_por_venta vid n nom) (ahora env (k + length antes)) (Some vid)
           cursor_k) = Inl e"
  shows "descontar_receta env vid n nom k (antes @ (id_ing, cant) # despues) cursor =
         (Inl e, cursor_k)"
proof -
  let ?paso = "actualizar_stock_ingrediente_db id_ing (dec_neg (dec_mul cant (dec_of_int n)))
           ''SALIDA_VENTA'' (Salida_por_venta vid n nom) (ahora env (k + length antes)) (Some vid)
           cursor_k"
  obtain c where "?paso = (Inl e, c)"
    using assms(2) by (cases ?paso) simp
  moreover from this have "c = cursor_k"
    by (rule engine_error_unchanged)
  ultimately have "?paso = (Inl e, cursor_k)" by simp
  then show ?thesis
    by (simp add: descontar_receta_append [OF assms(1)] Let_def)
qed

lemma venta_bien_formada:
  assumes "vta_id_producto data = Valor id_prod" "vta_cantidad_vendida data = Valor n" "0 < n"
  shows "registrar_salida_por_venta env data pool =
     (case venta_transaccion env id_prod n (vta_observacion_venta data) pool of
        (Inr nombre_producto, cursor) \<Rightarrow>
          (cursor, responder 200 (Venta_registrada n nombre_producto (new_id_venta env)))
      | (Inl e, cursor) \<Rightarrow> (pool, respuesta_de_error e))"
  using assms by (simp add: registrar_salida_por_venta_def)

lemma venta_sin_exito_no_cambia:
  "status (snd (registrar_salida_por_venta env data pool)) \<noteq> 200 \<Longrightarrow>
   fst (registrar_salida_por_venta env data pool) = pool"
  by (auto simp add: registrar_salida_por_venta_def responder_def
      split: campo.splits sum.splits prod.splits if_splits)

text \<open>
  Claim C1. For every sale request, if a per-ingredient stock adjustment fails (the
  ingredient is missing or its stock is insufficient) after the recipe lines before it were
  applied in the transaction, the whole operation leaves the store unchanged: the route
  returns the store it was given, so there is no sale row, no movement row, and the stock
  of every ingredient, including the ones adjusted before the failing line, is its
  pre-call value. The failure returned is the one of the failing line: it names the
  ingredient id, and for insufficient stock the name, the required magnitude and the
  stock available at that point; both are answered 400 with that detail.
\<close>

theorem venta_fallida_no_deja_rastro:
  assumes id_prod: "vta_id_producto data = Valor id_prod"
    and units: "vta_cantidad_vendida data = Valor n" "0 < n"
    and prod: "select_producto pool id_prod = Some p"
    and receta: "select_receta pool id_prod = antes @ (id_ing, cant) # despues"
    and antes: "descontar_receta env (new_id_venta env) n (prod_nombre p) 1 antes
                  (insert_venta env id_prod n (vta_observacion_venta data) p pool) =
                (Inr (), cursor_k)"
    and falla: "fst (actualizar_stock_ingrediente_db id_ing (dec_neg (dec_mul cant (dec_of_int n)))
                  ''SALIDA_VENTA'' (Salida_por_venta (new_id_venta env) n (prod_nombre p))
                  (ahora env (1 + length antes)) (Some (new_id_venta env)) cursor_k) = Inl e"
  shows "registrar_salida_por_venta env data pool = (pool, respuesta_de_error e) \<and>
         (e = Ingrediente_no_encontrado id_ing \<or>
          (\<exists>r. select_ingrediente cursor_k id_ing = Some r \<and>
               e = Stock_insuficiente (nombre r) id_ing
                     (dec_abs (dec_neg (dec_mul cant (dec_of_int n)))) (stock_actual r)) \<or>
          e = InvalidOperation) \<and>
         (e \<noteq> InvalidOperation \<longrightarrow>
            respuesta_de_error e = \<lparr>status = 400, body = Error_ValueError e\<rparr>)"
proof -
  let ?c1 = "insert_venta env id_prod n (vta_observacion_venta data) p pool"
  have loop: "descontar_receta env (new_id_venta env) n (prod_nombre p) 1
                (antes @ (id_ing, cant) # despues) ?c1 = (Inl e, cursor_k)"
    using antes falla by (rule descontar_receta_falla)
  have "venta_transaccion env id_prod n (vta_observacion_venta data) pool = (Inl e, cursor_k)"
    using prod receta loop by (simp add: venta_transaccion_def Let_def)
  then have run: "registrar_salida_por_venta env data pool = (pool, respuesta_de_error e)"
    using id_prod units by (simp add: venta_bien_formada)
  let ?paso = "actualizar_stock_ingrediente_db id_ing (dec_neg (dec_mul cant (dec_of_int n)))
                  ''SALIDA_VENTA'' (Salida_por_venta (new_id_venta env) n (prod_nombre p))
                  (ahora env (1 + length antes)) (Some (new_id_venta env)) cursor_k"
  have "?paso = (Inl e, snd ?paso)"
    using falla by (cases ?paso) simp
  then have cases: "e = Ingrediente_no_encontrado id_ing \<or>
          (\<exists>r. select_ingrediente cursor_k id_ing = Some r \<and>
               e = Stock_insuficiente (nombre r) id_ing
                     (dec_abs (dec_neg (dec_mul cant (dec_of_int n)))) (stock_actual r)) \<or>
          e = InvalidOperation"
    by (rule engine_error_cases)
  then have "e \<noteq> InvalidOperation \<longrightarrow>
            respuesta_de_error e = \<lparr>status = 400, body = Error_ValueError e\<rparr>"
    by (auto simp add: respuesta_de_error_def responder_def)
  with run cases show ?thesis by blast
qed

lemma receta_ordenada_por_nombre:
  "sorted (map nombre_ingrediente (ingredientes_receta_ordenados cursor producto_id))"
  by (simp add: ingredientes_receta_ordenados_def)

lemma receta_latte_ordenada:
  "map nombre_ingrediente (ingredientes_receta_ordenados cafeteria 1) = [''Azucar'', ''Leche'']"
  by code_simp

lemma venta_2_linea_leche:
  "descontar_receta reloj (new_id_venta reloj) 2 (prod_nombre latte) 1 [(1, Decimal 200 (- 3))]
     (insert_venta reloj 1 2 (vta_observacion_venta venta_2) latte cafeteria) = (Inr (), tras_leche)"
  by code_simp

lemma venta_2_linea_azucar:
  "fst (actualizar_stock_ingrediente_db 2 (dec_neg (dec_mul (Decimal 10 (- 3)) (dec_of_int 2)))
          ''SALIDA_VENTA'' (Salida_por_venta (new_id_venta reloj) 2 (prod_nombre latte))
          (ahora reloj (1 + length [(1 :: int, Decimal 200 (- 3))])) (Some (new_id_venta reloj))
          tras_leche) =
   Inl (Stock_insuficiente ''Azucar'' 2 (Decimal 20 (- 3)) (Decimal 15 (- 3)))"
  by code_simp

lemma venta_1_run:
  "registrar_salida_por_venta reloj venta_1 cafeteria =
   (cafeteria\<lparr>SGIC_INGREDIENTES :=
       [leche\<lparr>stock_actual := Decimal 9800 (- 3)\<rparr>, azucar\<lparr>stock_actual := Decimal 5 (- 3)\<rparr>],
     SGIC_MOVIMIENTOS_INVENTARIO :=
       [\<lparr>mov_id_ingrediente_fk = 1, mov_id_venta_fk = Some 7, tipo_movimiento = ''SALIDA_VENTA'',
         cantidad = Decimal 200 (- 3), fecha_movimiento = 101,
         mov_observacion = Salida_por_venta 7 1 ''Latte''\<rparr>,
        \<lparr>mov_id_ingrediente_fk = 2, mov_id_venta_fk = Some 7, tipo_movimiento = ''SALIDA_VENTA'',
         cantidad = Decimal 10 (- 3), fecha_movimiento = 102,
         mov_observacion = Salida_por_venta 7 1 ''Latte''\<rparr>],
     SGIC_VENTAS :=
       [\<lparr>id_venta = 7, venta_id_producto_fk = 1, cantidad_vendida = 1,
         precio_unitario_venta = Decimal 350 (- 2), monto_total_venta = Decimal 350 (- 2),
         fecha_venta = 100, venta_observacion = Venta_de 1 ''Latte''\<rparr>]\<rparr>,
    \<lparr>status = 200, body = Venta_registrada 1 ''Latte'' 7\<rparr>)"
  by code_simp

text \<open>
  A sale of two lattes on the sample store: the milk line is applied inside the
  transaction (9.600 L in the cursor), the sugar line fails, and the store returned is the
  sample store, milk at 10.000 L.
\<close>

theorem venta_fallida_no_deja_rastro_witness:
  "vta_id_producto venta_2 = Valor 1 \<and> vta_cantidad_vendida venta_2 = Valor 2 \<and>
   select_producto cafeteria 1 = Some latte \<and>
   select_receta cafeteria 1 = [(1, Decimal 200 (- 3))] @ (2, Decimal 10 (- 3)) # [] \<and>
   descontar_receta reloj (new_id_venta reloj) 2 (prod_nombre latte) 1 [(1, Decimal 200 (- 3))]
     (insert_venta reloj 1 2 (vta_observacion_venta venta_2) latte cafeteria) =
     (Inr (), tras_leche) \<and>
   stock_de tras_leche 1 = Some (Decimal 9600 (- 3)) \<and>
   stock_de cafeteria 1 = Some (Decimal 10000 (- 3)) \<and>
   registrar_salida_por_venta reloj venta_2 cafeteria =
     (cafeteria,
      \<lparr>status = 400,
       body = Error_ValueError
                (Stock_insuficiente ''Azucar'' 2 (Decimal 20 (- 3)) (Decimal 15 (- 3)))\<rparr>)"
proof -
  have h1: "vta_id_producto venta_2 = Valor 1" and h2: "vta_cantidad_vendida venta_2 = Valor 2"
    by (simp_all add: venta_2_def)
  have h3: "(0 :: int) < 2" by simp
  have h4: "select_producto cafeteria 1 = Some latte"
    by (simp add: store_eval)
  have h5: "select_receta cafeteria 1 = [(1, Decimal 200 (- 3))] @ (2, Decimal 10 (- 3)) # []"
    by (simp add: store_eval)
  have s1: "stock_de tras_leche 1 = Some (Decimal 9600 (- 3))"
    by (simp add: stock_de_def tras_leche_def store_eval)
  have s0: "stock_de cafeteria 1 = Some (Decimal 10000 (- 3))"
    by (simp add: stock_de_def store_eval)
  note run = venta_fallida_no_deja_rastro [OF h1 h2 h3 h4 h5 venta_2_linea_leche
      venta_2_linea_azucar]
  then have "registrar_salida_por_venta reloj venta_2 cafeteria =
     (cafeteria,
      \<lparr>status = 400,
       body = Error_ValueError
                (Stock_insuficiente ''Azucar'' 2 (Decimal 20 (- 3)) (Decimal 15 (- 3)))\<rparr>)"
    by simp
  with h1 h2 h4 h5 venta_2_linea_leche s1 s0 show ?thesis
    by (intro conjI)
qed

text \<open>
  Claim C6 says that the sale processes the recipe lines, and so locks the ingredient rows,
  in the order of the ingredient names, the order in which \<^verbatim>\<open>get_producto_by_id\<close> returns
  them. The recipe query of the sale has no \<^verbatim>\<open>ORDER BY\<close>. On the sample store the recipe
  rows of the latte are stored milk first: the product route lists \<^verbatim>\<open>Azucar\<close> before
  \<^verbatim>\<open>Leche\<close>, and a sale of one latte adjusts milk first and sugar second.
\<close>

theorem venta_procesa_receta_en_orden_de_tabla:
  "map nombre_ingrediente (ingredientes_receta_ordenados cafeteria 1) = [''Azucar'', ''Leche''] \<and>
   status (snd (registrar_salida_por_venta reloj venta_1 cafeteria)) = 200 \<and>
   map mov_id_ingrediente_fk
     (SGIC_MOVIMIENTOS_INVENTARIO (fst (registrar_salida_por_venta reloj venta_1 cafeteria))) =
     [id_ingrediente leche, id_ingrediente azucar]"
  by (simp add: receta_latte_ordenada venta_1_run leche_def azucar_def)

text \<open>
  The same sale read through the movement log: the two movements carry successive clock
  readings, and their ingredient ids are not in the order of the product route.
\<close>

theorem venta_procesa_receta_en_orden_de_tabla_witness:
  "map fecha_movimiento
     (SGIC_MOVIMIENTOS_INVENTARIO (fst (registrar_salida_por_venta reloj venta_1 cafeteria))) =
     [101, 102] \<and>
   map mov_id_ingrediente_fk
     (SGIC_MOVIMIENTOS_INVENTARIO (fst (registrar_salida_por_venta reloj venta_1 cafeteria))) \<noteq>
   map rec_id_ingrediente (ingredientes_receta_ordenados cafeteria 1)"
proof -
  have "map rec_id_ingrediente (ingredientes_receta_ordenados cafeteria 1) = [2, 1]"
    by code_simp
  moreover have "map fecha_movimiento
     (SGIC_MOVIMIENTOS_INVENTARIO (fst (registrar_salida_por_venta reloj venta_1 cafeteria))) =
     [101, 102]"
    by (simp add: venta_1_run)
  ultimately show ?thesis
    using venta_procesa_receta_en_orden_de_tabla by (simp add: leche_def azucar_def)
qed

end
